theory Spec2Isabelle
  imports Complex_Main "HOL-Library.Multiset" "HOL-Library.Product_Lexorder"
begin

section \<open>Data model\<close>

text \<open>
  The armor detector node of \<^verbatim>\<open>base_detector_node.cpp\<close> and the depth processor
  declared in \<^verbatim>\<open>depth_processor.hpp\<close>. C++ \<^verbatim>\<open>double\<close> and \<^verbatim>\<open>float\<close> values are
  modelled as \<^typ>\<open>real\<close>; an image (\<^verbatim>\<open>cv::Mat\<close>) is a value of the type variable
  \<open>'img\<close>. Members whose C++ name ends in an underscore (\<^verbatim>\<open>detector_\<close>, \<^verbatim>\<open>debug_\<close>, ...)
  are written without it.
\<close>

type_synonym point2f = "real \<times> real"
type_synonym point3 = "real \<times> real \<times> real"
type_synonym scalar = "int \<times> int \<times> int"

text \<open>The colour codes of the parameter description \<^verbatim>\<open>"0-RED, 1-BLUE"\<close>.\<close>

definition RED :: int where
  "RED = 0"

definition BLUE :: int where
  "BLUE = 1"

datatype armor_type = SMALL | LARGE

text \<open>
  A light: the members the node reads (\<^verbatim>\<open>color\<close>, \<^verbatim>\<open>top\<close>, \<^verbatim>\<open>bottom\<close>) and the centre,
  length, width and tilt angle of the data model. \<^verbatim>\<open>top\<close> and \<^verbatim>\<open>length\<close> are renamed,
  since HOL has constants of these names.
\<close>

record light =
  color :: int
  top_pt :: point2f
  bottom :: point2f
  center :: point2f
  light_length :: real
  width :: real
  tilt_angle :: real

text \<open>
  An armor: two lights and the derived members. The optional 3D position is the one
  of the data model's armor record (\<open>None\<close>: no position).
\<close>

record 'img armor =
  left_light :: light
  right_light :: light
  center :: point2f
  size_category :: armor_type
  number_img :: 'img
  classfication_result :: string
  confidence :: real
  position :: "point3 option"

text \<open>
  The debug records: the node reads \<^verbatim>\<open>center_x\<close> only; the other members stand for
  the rest of each record.
\<close>

record debug_light =
  center_x :: int
  is_light :: bool
  ratio :: real
  angle :: real

record debug_armor =
  center_x :: int
  light_ratio :: real
  center_distance :: real
  armor_angle :: real

record light_params =
  min_ratio :: real
  max_ratio :: real
  max_angle :: real

record armor_params =
  min_light_ratio :: real
  min_small_center_distance :: real
  max_small_center_distance :: real
  min_large_center_distance :: real
  max_large_center_distance :: real
  max_angle :: real

text \<open>
  The detector object: \<^verbatim>\<open>Detector(min_lightness, detect_color, l_params, a_params)\<close> and
  the two debug messages (their \<^verbatim>\<open>data\<close> vectors) the node sorts and publishes.
\<close>

record detector =
  min_lightness :: int
  detect_color :: int
  l_params :: light_params
  a_params :: armor_params
  debug_lights :: "debug_light list"
  debug_armors :: "debug_armor list"

record classifier =
  model_path :: string
  label_path :: string
  threshold :: real

text \<open>
  The node's parameter store. The constructor declares \<^verbatim>\<open>min_lightness\<close> and
  \<^verbatim>\<open>detect_color\<close> as integers, \<^verbatim>\<open>classifier.threshold\<close> as a double and \<^verbatim>\<open>debug\<close> as a
  boolean, so \<^verbatim>\<open>get_parameter(...).as_int()\<close> and \<^verbatim>\<open>.as_double()\<close> on them return a value
  of that type.
\<close>

record parameters =
  p_min_lightness :: int
  p_detect_color :: int
  p_classifier_threshold :: real

record header =
  stamp :: int
  frame_id :: string

text \<open>
  An image message, already decoded: \<open>image\<close> is the \<^verbatim>\<open>rgb8\<close> matrix that
  \<^verbatim>\<open>cv_bridge::toCvShare(img_msg, "rgb8")->image\<close> yields.
\<close>

record 'img image_msg =
  header :: header
  image :: 'img

text \<open>The marker actions \<^verbatim>\<open>Marker::ADD\<close> and \<^verbatim>\<open>Marker::DELETE\<close> of the marker message.\<close>

definition ADD :: int where
  "ADD = 0"

definition DELETE :: int where
  "DELETE = 2"

record marker =
  ns :: string
  marker_type :: int
  action :: int
  points :: "point3 list"
  text_of :: string

record armor_msg =
  number :: string
  pose_position :: point3
  distance_to_image_center :: real

text \<open>
  What the node does that can be observed from outside, in the order it does it: the
  parameters it reads, the stages it calls and the messages it publishes or logs.
\<close>

datatype stage = PreprocessImage | FindLights | MatchLights | ExtractNumbers | DoClassify

datatype 'img event =
    GetParameter string
  | Call stage
  | LogInfo real
  | PublishBinaryImg header 'img
  | PublishLights "debug_light list"
  | PublishArmors "debug_armor list"
  | PublishNumber header 'img
  | PublishFinalImg header 'img
  | PublishMarkers "marker list"

record 'img node =
  parameters :: parameters
  detector :: detector
  classifier :: classifier
  debug :: bool
  cam_center :: point2f
  position_marker :: marker
  text_marker :: marker
  marker_array :: "marker list"
  armors_msg :: "armor_msg list"
  trace :: "'img event list"

text \<open>
  The methods of \<^verbatim>\<open>Detector\<close> and \<^verbatim>\<open>NumberClassifier\<close> and the OpenCV functions the
  node calls are defined outside these source files: they are parameters of the model.
  A method that may change its object returns the object too; \<^verbatim>\<open>extractNumbers\<close> and
  \<^verbatim>\<open>doClassify\<close> change the armor vector they are given and return it. The stages do
  not change the image they read. \<^verbatim>\<open>putText\<close> is always called with the font
  \<^verbatim>\<open>FONT_HERSHEY_SIMPLEX\<close>, which is left out.
\<close>

record 'img ops =
  preprocessImage :: "detector \<Rightarrow> 'img \<Rightarrow> 'img \<times> detector"
  findLights :: "detector \<Rightarrow> 'img \<Rightarrow> 'img \<Rightarrow> light list \<times> detector"
  matchLights :: "detector \<Rightarrow> light list \<Rightarrow> 'img armor list \<times> detector"
  extractNumbers :: "classifier \<Rightarrow> 'img \<Rightarrow> 'img armor list \<Rightarrow> 'img armor list \<times> classifier"
  doClassify :: "classifier \<Rightarrow> 'img armor list \<Rightarrow> 'img armor list \<times> classifier"
  resize :: "'img \<Rightarrow> nat \<times> nat \<Rightarrow> 'img"
  vconcat :: "'img list \<Rightarrow> 'img"
  putText :: "'img \<Rightarrow> string \<Rightarrow> point2f \<Rightarrow> real \<Rightarrow> scalar \<Rightarrow> int \<Rightarrow> 'img"
  ellipse :: "'img \<Rightarrow> light \<Rightarrow> scalar \<Rightarrow> int \<Rightarrow> 'img"
  line :: "'img \<Rightarrow> point2f \<Rightarrow> point2f \<Rightarrow> scalar \<Rightarrow> int \<Rightarrow> 'img"
  circle :: "'img \<Rightarrow> point2f \<Rightarrow> int \<Rightarrow> scalar \<Rightarrow> int \<Rightarrow> 'img"
  to_string :: "real \<Rightarrow> string"
  sort_lights :: "debug_light list \<Rightarrow> debug_light list"
  sort_armors :: "debug_armor list \<Rightarrow> debug_armor list"

text \<open>
  \<open>sort_lights\<close> and \<open>sort_armors\<close> are \<^verbatim>\<open>std::sort\<close> with the comparison
  \<^verbatim>\<open>l1.center_x < l2.center_x\<close>, on the two record vectors. \<^verbatim>\<open>std::sort\<close> promises a permutation of its
  range in ascending order of the key and leaves the order of records with equal keys
  open: any function that keeps this promise can stand for it.
\<close>

definition std_sort_contract :: "('a \<Rightarrow> int) \<Rightarrow> ('a list \<Rightarrow> 'a list) \<Rightarrow> bool" where
  "std_sort_contract key srt = (\<forall>xs. sorted (map key (srt xs)) \<and> mset (srt xs) = mset xs)"

section \<open>The detector node\<close>

definition emit :: "'img event \<Rightarrow> 'img node \<Rightarrow> 'img node" where
  "emit e node = node\<lparr>trace := trace node @ [e]\<rparr>"

text \<open>
  \<^verbatim>\<open>BaseDetectorNode::initDetector\<close>: the detector is built from the declared parameter
  values.
\<close>

definition initDetector :: "parameters \<Rightarrow> light_params \<Rightarrow> armor_params \<Rightarrow> detector" where
  "initDetector ps l a =
     \<lparr>min_lightness = p_min_lightness ps, detect_color = p_detect_color ps,
      l_params = l, a_params = a, debug_lights = [], debug_armors = []\<rparr>"

text \<open>
  \<^verbatim>\<open>BaseDetectorNode::drawResults\<close>: the lights, the armors' diagonals, the
  classification texts and the camera centre are drawn on the image, in this order.
\<close>

definition drawResults ::
  "'img ops \<Rightarrow> point2f \<Rightarrow> 'img \<Rightarrow> light list \<Rightarrow> 'img armor list \<Rightarrow> 'img" where
  "drawResults ops cam img lights armors =
     (let img1 = fold (\<lambda>light im.
                   ellipse ops im light
                     (if color light = RED then (255, 255, 0) else (255, 0, 255)) 2) lights img;
          img2 = fold (\<lambda>armor im.
                   line ops
                     (line ops im (top_pt (left_light armor)) (bottom (right_light armor))
                        (0, 255, 0) 2)
                     (bottom (left_light armor)) (top_pt (right_light armor)) (0, 255, 0) 2)
                   armors img1;
          img3 = fold (\<lambda>armor im.
                   putText ops im (classfication_result armor) (top_pt (left_light armor))
                     (8 / 10) (0, 255, 255) 2) armors img2
      in circle ops img3 cam 5 (255, 0, 0) 2)"

text \<open>
  \<^verbatim>\<open>detectArmors\<close>, lines 121 to 134: the two detector parameters are read, the image
  is binarised, the lights are found and matched; when the armor vector is not empty
  the numbers are extracted, the classifier threshold is read and the armors are
  classified. The result is the binary image, the lights, the armors and the node.
\<close>

definition pipeline ::
  "'img ops \<Rightarrow> 'img node \<Rightarrow> 'img \<Rightarrow> 'img \<times> light list \<times> 'img armor list \<times> 'img node" where
  "pipeline ops node img =
     (let n1 = emit (GetParameter ''min_lightness'') node;
          n2 = n1\<lparr>detector := (detector n1)\<lparr>min_lightness := p_min_lightness (parameters n1)\<rparr>\<rparr>;
          n3 = emit (GetParameter ''detect_color'') n2;
          n4 = n3\<lparr>detector := (detector n3)\<lparr>detect_color := p_detect_color (parameters n3)\<rparr>\<rparr>;
          n5 = emit (Call PreprocessImage) n4;
          (binary_img, d1) = preprocessImage ops (detector n5) img;
          n6 = emit (Call FindLights) (n5\<lparr>detector := d1\<rparr>);
          (lights, d2) = findLights ops (detector n6) img binary_img;
          n7 = emit (Call MatchLights) (n6\<lparr>detector := d2\<rparr>);
          (armors, d3) = matchLights ops (detector n7) lights;
          n8 = n7\<lparr>detector := d3\<rparr>
      in if armors \<noteq> [] then
           (let n9 = emit (Call ExtractNumbers) n8;
                (armors1, c1) = extractNumbers ops (classifier n9) img armors;
                n10 = emit (GetParameter ''classifier.threshold'') (n9\<lparr>classifier := c1\<rparr>);
                n11 = n10\<lparr>classifier :=
                        (classifier n10)\<lparr>threshold := p_classifier_threshold (parameters n10)\<rparr>\<rparr>;
                n12 = emit (Call DoClassify) n11;
                (armors2, c2) = doClassify ops (classifier n12) armors1
            in (binary_img, lights, armors2, n12\<lparr>classifier := c2\<rparr>))
         else (binary_img, lights, armors, n8))"

text \<open>
  \<^verbatim>\<open>detectArmors\<close>, lines 138 to 172, the body of \<^verbatim>\<open>if (debug_)\<close>: the latency is logged
  and written on the image, the binary image is published, the detector's debug
  records are sorted in place by \<^verbatim>\<open>center_x\<close> and published; when the armor vector is
  not empty every armor's number image is resized in place to 20 x 28 (the loop
  variable is a reference into the vector that is returned) and the stacked number
  images are published; the results are drawn and the final image is published.
\<close>

definition publish_debug ::
  "'img ops \<Rightarrow> int \<Rightarrow> int \<Rightarrow> header \<Rightarrow> 'img \<Rightarrow> 'img \<Rightarrow> light list \<Rightarrow> 'img armor list \<Rightarrow>
     'img node \<Rightarrow> 'img armor list \<times> 'img node" where
  "publish_debug ops start_time final_time hdr img binary_img lights armors node =
     (let latency = real_of_int (final_time - start_time) / 1000000000 * 1000;
          n1 = emit (LogInfo latency) node;
          img1 = putText ops img (''Latency: '' @ to_string ops latency @ ''ms'') (10, 30)
                   1 (0, 255, 0) 2;
          n2 = emit (PublishBinaryImg hdr binary_img) n1;
          n3 = n2\<lparr>detector := (detector n2)\<lparr>debug_lights :=
                  sort_lights ops (debug_lights (detector n2))\<rparr>\<rparr>;
          n4 = n3\<lparr>detector := (detector n3)\<lparr>debug_armors :=
                  sort_armors ops (debug_armors (detector n3))\<rparr>\<rparr>;
          n5 = emit (PublishLights (debug_lights (detector n4))) n4;
          n6 = emit (PublishArmors (debug_armors (detector n5))) n5;
          (armors1, n7) =
            (if armors \<noteq> [] then
               (let resized = map (\<lambda>armor. armor\<lparr>number_img :=
                                 resize ops (number_img armor) (20, 28)\<rparr>) armors;
                    all_num_img = vconcat ops (map number_img resized)
                in (resized, emit (PublishNumber hdr all_num_img) n6))
             else (armors, n6));
          img2 = drawResults ops (cam_center n7) img1 lights armors1
      in (armors1, emit (PublishFinalImg hdr img2) n7))"

text \<open>
  \<^verbatim>\<open>BaseDetectorNode::detectArmors\<close>. The two readings of the node's clock are the
  arguments \<open>start_time\<close> and \<open>final_time\<close>, in nanoseconds.
\<close>

definition detectArmors ::
  "'img ops \<Rightarrow> int \<Rightarrow> int \<Rightarrow> 'img node \<Rightarrow> 'img image_msg \<Rightarrow> 'img armor list \<times> 'img node" where
  "detectArmors ops start_time final_time node img_msg =
     (let img = image img_msg;
          (binary_img, lights, armors, n1) = pipeline ops node img
      in if debug n1 then
           publish_debug ops start_time final_time (header img_msg) img binary_img lights armors n1
         else (armors, n1))"

text \<open>\<^verbatim>\<open>BaseDetectorNode::publishMarkers\<close>.\<close>

definition publishMarkers :: "'img node \<Rightarrow> 'img node" where
  "publishMarkers node =
     (let n1 = node\<lparr>position_marker :=
                 (position_marker node)\<lparr>action := if armors_msg node = [] then DELETE else ADD\<rparr>\<rparr>;
          n2 = n1\<lparr>marker_array := marker_array n1 @ [position_marker n1]\<rparr>
      in emit (PublishMarkers (marker_array n2)) n2)"

text \<open>
  \<^verbatim>\<open>BaseDetectorNode::BaseDetectorNode\<close>, as far as it sets the members modelled here:
  \<open>ps\<close>, \<open>l\<close>, \<open>a\<close> and \<open>dbg\<close> are the values \<^verbatim>\<open>declare_parameter\<close> returns and
  \<open>pkg_path\<close> is the package's share directory. The marker types are
  \<^verbatim>\<open>Marker::SPHERE_LIST\<close> and \<^verbatim>\<open>Marker::TEXT_VIEW_FACING\<close>; \<^verbatim>\<open>cam_center_\<close> is not set by
  the constructor.
\<close>

definition SPHERE_LIST :: int where
  "SPHERE_LIST = 7"

definition TEXT_VIEW_FACING :: int where
  "TEXT_VIEW_FACING = 9"

definition BaseDetectorNode ::
  "string \<Rightarrow> parameters \<Rightarrow> light_params \<Rightarrow> armor_params \<Rightarrow> bool \<Rightarrow> 'img node" where
  "BaseDetectorNode pkg_path ps l a dbg =
     \<lparr>parameters = ps,
      detector = initDetector ps l a,
      classifier = \<lparr>model_path = pkg_path @ ''/model/fc.onnx'',
                    label_path = pkg_path @ ''/model/label.txt'',
                    threshold = p_classifier_threshold ps\<rparr>,
      debug = dbg,
      cam_center = (0, 0),
      position_marker = \<lparr>ns = ''armors'', marker_type = SPHERE_LIST, action = 0,
                         points = [], text_of = []\<rparr>,
      text_marker = \<lparr>ns = ''classification'', marker_type = TEXT_VIEW_FACING, action = ADD,
                     points = [], text_of = []\<rparr>,
      marker_array = [],
      armors_msg = [],
      trace = []\<rparr>"

text \<open>The default values of the declared parameters.\<close>

definition default_parameters :: parameters where
  "default_parameters =
     \<lparr>p_min_lightness = 160, p_detect_color = RED, p_classifier_threshold = 7 / 10\<rparr>"

definition default_light_params :: light_params where
  "default_light_params = \<lparr>min_ratio = 1 / 10, max_ratio = 55 / 100, light_params.max_angle = 40\<rparr>"

definition default_armor_params :: armor_params where
  "default_armor_params =
     \<lparr>min_light_ratio = 6 / 10, min_small_center_distance = 8 / 10,
      max_small_center_distance = 28 / 10, min_large_center_distance = 32 / 10,
      max_large_center_distance = 43 / 10, max_angle = 35\<rparr>"

subsection \<open>Reading a trace\<close>

text \<open>The events a call adds to the trace.\<close>

definition frame_events :: "'img node \<Rightarrow> 'img node \<Rightarrow> 'img event list" where
  "frame_events node node' = drop (length (trace node)) (trace node')"

text \<open>The stages a trace calls, in order.\<close>

fun stage_calls :: "'img event list \<Rightarrow> stage list" where
  "stage_calls [] = []"
| "stage_calls (Call s # es) = s # stage_calls es"
| "stage_calls (_ # es) = stage_calls es"

text \<open>The parameters a trace reads, in order.\<close>

fun param_reads :: "'img event list \<Rightarrow> string list" where
  "param_reads [] = []"
| "param_reads (GetParameter p # es) = p # param_reads es"
| "param_reads (_ # es) = param_reads es"

text \<open>The parameter reads and stage calls of a trace: what the detection itself does.\<close>

fun pipeline_events :: "'img event list \<Rightarrow> 'img event list" where
  "pipeline_events [] = []"
| "pipeline_events (GetParameter p # es) = GetParameter p # pipeline_events es"
| "pipeline_events (Call s # es) = Call s # pipeline_events es"
| "pipeline_events (_ # es) = pipeline_events es"

text \<open>
  A frame reads its parameters as one snapshot at its start when, once the leading
  block of parameter reads is over, no parameter is read again.
\<close>

fun after_leading_reads :: "'img event list \<Rightarrow> 'img event list" where
  "after_leading_reads (GetParameter p # es) = after_leading_reads es"
| "after_leading_reads es = es"

definition reads_only_at_start :: "'img event list \<Rightarrow> bool" where
  "reads_only_at_start es = (param_reads (after_leading_reads es) = [])"

text \<open>The debug records and the marker arrays a trace publishes.\<close>

fun published_lights :: "'img event list \<Rightarrow> debug_light list list" where
  "published_lights [] = []"
| "published_lights (PublishLights ls # es) = ls # published_lights es"
| "published_lights (_ # es) = published_lights es"

fun published_armors :: "'img event list \<Rightarrow> debug_armor list list" where
  "published_armors [] = []"
| "published_armors (PublishArmors as # es) = as # published_armors es"
| "published_armors (_ # es) = published_armors es"

fun published_markers :: "'img event list \<Rightarrow> marker list list" where
  "published_markers [] = []"
| "published_markers (PublishMarkers ms # es) = ms # published_markers es"
| "published_markers (_ # es) = published_markers es"

text \<open>
  The detector as the stages get it: the node's detector with the two parameters read
  at lines 122 and 123.
\<close>

definition snapshot :: "'img node \<Rightarrow> detector" where
  "snapshot node =
     (detector node)\<lparr>min_lightness := p_min_lightness (parameters node),
                     detect_color := p_detect_color (parameters node)\<rparr>"

text \<open>The armors with every number image resized as the debug branch resizes it.\<close>

definition resize_numbers :: "'img ops \<Rightarrow> 'img armor list \<Rightarrow> 'img armor list" where
  "resize_numbers ops armors =
     map (\<lambda>armor. armor\<lparr>number_img := resize ops (number_img armor) (20, 28)\<rparr>) armors"

section \<open>The light matcher\<close>

text \<open>
  Modelled from the spec: \<^verbatim>\<open>Detector::matchLights\<close> is called by the node but defined
  outside these source files. The lights are sorted by colour, then by the horizontal
  position of their centre, and numbered in this order. Each light, from the left,
  that is not yet part of an armor is paired with the first later light of its colour
  that is not part of one either and that the geometric test accepts; both are then
  consumed. The geometric test (length ratio, normalised centre distance, angle; it
  gives the size category of an accepted pair) is the parameter \<open>isArmor\<close>. The rule
  that picks among several accepted partners is the ordered iteration: the first one
  in the sorted order.
\<close>

definition sortLights :: "light list \<Rightarrow> light list" where
  "sortLights lights = sort_key (\<lambda>l. (color l, fst (light.center l))) lights"

text \<open>
  Modelled from the spec: the first light of \<open>rest\<close> that has the colour of \<open>l\<close> and
  that the geometric test accepts as its partner.
\<close>

fun find_partner ::
  "(light \<Rightarrow> light \<Rightarrow> armor_type option) \<Rightarrow> light \<Rightarrow> (nat \<times> light) list \<Rightarrow>
     ((nat \<times> light) \<times> armor_type) option" where
  "find_partner isArmor l [] = None"
| "find_partner isArmor l ((j, m) # rest) =
     (if color m = color l then
        (case isArmor l m of
           Some ty \<Rightarrow> Some ((j, m), ty)
         | None \<Rightarrow> find_partner isArmor l rest)
      else find_partner isArmor l rest)"

text \<open>
  Modelled from the spec: the pairing of the numbered lights, from the left; a light
  that has been paired is taken out of the lights that follow.
\<close>

function match_from ::
  "(light \<Rightarrow> light \<Rightarrow> armor_type option) \<Rightarrow> (nat \<times> light) list \<Rightarrow>
     ((nat \<times> light) \<times> (nat \<times> light) \<times> armor_type) list" where
  "match_from isArmor [] = []"
| "match_from isArmor ((i, l) # rest) =
     (case find_partner isArmor l rest of
        None \<Rightarrow> match_from isArmor rest
      | Some ((j, m), ty) \<Rightarrow>
          ((i, l), (j, m), ty) # match_from isArmor (filter (\<lambda>(k, _). k \<noteq> j) rest))"
  by pat_completeness auto
termination
  by (relation "measure (\<lambda>(isArmor, xs). length xs)") (auto simp: less_Suc_eq_le)

text \<open>
  Modelled from the spec: the matched pairs of a frame, each with the numbers of its
  two lights in the sorted list.
\<close>

definition match_pairs ::
  "(light \<Rightarrow> light \<Rightarrow> armor_type option) \<Rightarrow> light list \<Rightarrow>
     ((nat \<times> light) \<times> (nat \<times> light) \<times> armor_type) list" where
  "match_pairs isArmor lights = match_from isArmor (enumerate 0 (sortLights lights))"

text \<open>The numbers of the lights that the pairs use, pair by pair.\<close>

definition used_lights ::
  "((nat \<times> light) \<times> (nat \<times> light) \<times> armor_type) list \<Rightarrow> nat list" where
  "used_lights ps = concat (map (\<lambda>((i, l), (j, m), ty). [i, j]) ps)"

text \<open>
  Modelled from the spec: an armor made of two lights. Its centre is the midpoint of
  the lights' centres; it has no number image (\<open>no_img\<close>), no classification and no
  position yet.
\<close>

definition Armor :: "'img \<Rightarrow> light \<Rightarrow> light \<Rightarrow> armor_type \<Rightarrow> 'img armor" where
  "Armor no_img l1 l2 ty =
     \<lparr>left_light = l1, right_light = l2,
      center = ((fst (light.center l1) + fst (light.center l2)) / 2,
                (snd (light.center l1) + snd (light.center l2)) / 2),
      size_category = ty, number_img = no_img, classfication_result = [],
      confidence = 0, position = None\<rparr>"

text \<open>
  Modelled from the spec: \<^verbatim>\<open>Detector::matchLights\<close>, the armors of the matched pairs.
\<close>

definition Detector_matchLights ::
  "(light \<Rightarrow> light \<Rightarrow> armor_type option) \<Rightarrow> 'img \<Rightarrow> light list \<Rightarrow> 'img armor list" where
  "Detector_matchLights isArmor no_img lights =
     map (\<lambda>((i, l), (j, m), ty). Armor no_img l m ty) (match_pairs isArmor lights)"

section \<open>The depth processor\<close>

text \<open>
  The members \<^verbatim>\<open>fx_\<close>, \<^verbatim>\<open>fy_\<close>, \<^verbatim>\<open>cx_\<close> and \<^verbatim>\<open>cy_\<close> of \<^verbatim>\<open>DepthProcessor\<close>.
\<close>

record depth_processor =
  fx :: real
  fy :: real
  cx :: real
  cy :: real

text \<open>
  Modelled from the spec: a depth map is a list of rows of samples; a sample is a
  number or not-a-number.
\<close>

datatype depth_sample = Depth real | NotANumber

type_synonym depth_map = "depth_sample list list"

datatype depth_error = InvalidDepth

text \<open>
  Modelled from the spec: the nearest-pixel lookup of \<^verbatim>\<open>getPosition\<close>, whose body is
  not in these source files. A point outside the map has no sample.
\<close>

definition sample_depth :: "depth_map \<Rightarrow> point2f \<Rightarrow> depth_sample option" where
  "sample_depth depth_image image_point =
     (let col = round (fst image_point); row = round (snd image_point)
      in if 0 \<le> row \<and> 0 \<le> col \<and> nat row < length depth_image
            \<and> nat col < length (depth_image ! nat row)
         then Some (depth_image ! nat row ! nat col) else None)"

text \<open>
  Modelled from the spec: a sample is invalid when it is zero, negative or not a
  number.
\<close>

fun invalid_depth :: "depth_sample \<Rightarrow> bool" where
  "invalid_depth NotANumber = True"
| "invalid_depth (Depth d) = (d = 0 \<or> d < 0)"

text \<open>
  Modelled from the spec: \<^verbatim>\<open>DepthProcessor::getPosition\<close>, declared in
  \<^verbatim>\<open>depth_processor.hpp\<close> and defined outside these source files. A missing or invalid
  sample is the error \<open>InvalidDepth\<close>; a valid one is projected back through the
  pinhole.
\<close>

definition getPosition :: "depth_processor \<Rightarrow> depth_map \<Rightarrow> point2f \<Rightarrow> depth_error + point3" where
  "getPosition dp depth_image image_point =
     (case sample_depth depth_image image_point of
        None \<Rightarrow> Inl InvalidDepth
      | Some NotANumber \<Rightarrow> Inl InvalidDepth
      | Some (Depth d) \<Rightarrow>
          if d \<le> 0 then Inl InvalidDepth
          else Inr ((fst image_point - cx dp) * d / fx dp,
                    (snd image_point - cy dp) * d / fy dp,
                    d))"

text \<open>
  Modelled from the spec: \<^verbatim>\<open>DepthProcessor::calculateDistanceToCenter\<close>, declared in
  \<^verbatim>\<open>depth_processor.hpp\<close> and defined outside these source files. The image centre is
  the optical centre \<open>(cx, cy)\<close> of the intrinsics, the only centre the class holds.
\<close>

definition calculateDistanceToCenter :: "depth_processor \<Rightarrow> point2f \<Rightarrow> real" where
  "calculateDistanceToCenter dp image_point =
     sqrt ((fst image_point - cx dp)\<^sup>2 + (snd image_point - cy dp)\<^sup>2)"

text \<open>
  Modelled from the spec: the step of the pipeline that computes the 3D position of an
  armor from the depth at its centre, which these source files do not contain. An
  armor whose depth is invalid is kept, without a position.
\<close>

definition locate :: "depth_processor \<Rightarrow> depth_map \<Rightarrow> 'img armor \<Rightarrow> 'img armor" where
  "locate dp depth_image armor =
     armor\<lparr>position :=
       (case getPosition dp depth_image (armor.center armor) of
          Inl e \<Rightarrow> None
        | Inr p \<Rightarrow> Some p)\<rparr>"

text \<open>
  Modelled from the spec: the step over the whole armor list, with the depth map if
  there is one.
\<close>

definition computePositions ::
  "depth_processor \<Rightarrow> depth_map option \<Rightarrow> 'img armor list \<Rightarrow> 'img armor list" where
  "computePositions dp depth armors =
     (case depth of
        None \<Rightarrow> armors
      | Some depth_image \<Rightarrow> map (locate dp depth_image) armors)"

section \<open>A concrete instance\<close>

text \<open>
  Stages for evaluating the node on concrete frames. An image is its size (columns,
  rows). A frame with no columns has no lights; any other frame has two red lights of
  length 20, level with each other at x = 140 and x = 100. The geometric test takes the
  horizontal distance of the centres over the mean length, with the default bounds of
  the armor parameters. The number image is cut out at 20 x 28, the size line 162
  names, and a resize gives an image of the size asked for. The sort is the insertion
  sort \<^const>\<open>sort_key\<close>.
\<close>

definition ex_light :: "real \<Rightarrow> light" where
  "ex_light x =
     \<lparr>color = RED, top_pt = (x, 10), bottom = (x, 30), light.center = (x, 20),
      light_length = 20, width = 4, tilt_angle = 0\<rparr>"

definition ex_debug_light :: "int \<Rightarrow> debug_light" where
  "ex_debug_light x = \<lparr>debug_light.center_x = x, is_light = True, ratio = 2 / 10, angle = 0\<rparr>"

definition ex_debug_armor :: "(nat \<times> nat) armor \<Rightarrow> debug_armor" where
  "ex_debug_armor a =
     \<lparr>center_x = \<lfloor>fst (armor.center a)\<rfloor>, light_ratio = 1, center_distance = 2,
      armor_angle = 0\<rparr>"

definition ex_isArmor :: "light \<Rightarrow> light \<Rightarrow> armor_type option" where
  "ex_isArmor l1 l2 =
     (let r = \<bar>fst (light.center l1) - fst (light.center l2)\<bar> /
              ((light_length l1 + light_length l2) / 2)
      in if 8 / 10 \<le> r \<and> r \<le> 28 / 10 then Some SMALL
         else if 32 / 10 \<le> r \<and> r \<le> 43 / 10 then Some LARGE
         else None)"

definition ex_findLights ::
  "detector \<Rightarrow> nat \<times> nat \<Rightarrow> nat \<times> nat \<Rightarrow> light list \<times> detector" where
  "ex_findLights d img binary_img =
     (if fst img = 0 then ([], d\<lparr>debug_lights := []\<rparr>)
      else ([ex_light 140, ex_light 100],
            d\<lparr>debug_lights := [ex_debug_light 140, ex_debug_light 100]\<rparr>))"

definition ex_matchLights ::
  "detector \<Rightarrow> light list \<Rightarrow> (nat \<times> nat) armor list \<times> detector" where
  "ex_matchLights d lights =
     (let armors = Detector_matchLights ex_isArmor (0, 0) lights
      in (armors, d\<lparr>debug_armors := map ex_debug_armor armors\<rparr>))"

definition ex_ops :: "(nat \<times> nat) ops" where
  "ex_ops =
     \<lparr>preprocessImage = (\<lambda>d img. (img, d)),
      findLights = ex_findLights,
      matchLights = ex_matchLights,
      extractNumbers = (\<lambda>c img armors. (map (\<lambda>a. a\<lparr>number_img := (20, 28)\<rparr>) armors, c)),
      doClassify = (\<lambda>c armors.
        (map (\<lambda>a. a\<lparr>classfication_result := ''3'', confidence := 9 / 10\<rparr>) armors, c)),
      resize = (\<lambda>img dsize. dsize),
      vconcat = (\<lambda>imgs. (case imgs of [] \<Rightarrow> (0, 0) | i # _ \<Rightarrow> (fst i, sum_list (map snd imgs)))),
      putText = (\<lambda>img t org fontScale c thickness. img),
      ellipse = (\<lambda>img l c thickness. img),
      line = (\<lambda>img p1 p2 c thickness. img),
      circle = (\<lambda>img p r c thickness. img),
      to_string = (\<lambda>x. ''0''),
      sort_lights = sort_key debug_light.center_x,
      sort_armors = sort_key debug_armor.center_x\<rparr>"

text \<open>
  Stages that leave given debug records in the detector: one light is found, no armor
  is matched, and the detector holds the records \<open>dls\<close> and \<open>das\<close> of the candidates it
  looked at.
\<close>

definition probe_ops :: "debug_light list \<Rightarrow> debug_armor list \<Rightarrow> (nat \<times> nat) ops" where
  "probe_ops dls das =
     ex_ops\<lparr>findLights := (\<lambda>d img binary_img. ([ex_light 100], d\<lparr>debug_lights := dls\<rparr>)),
            matchLights := (\<lambda>d lights. ([], d\<lparr>debug_armors := das\<rparr>))\<rparr>"

text \<open>
  Two debug records in the same pixel column: a light and a contour that is not one.
\<close>

definition tie_a :: debug_light where
  "tie_a = \<lparr>debug_light.center_x = 100, is_light = True, ratio = 2 / 10, angle = 0\<rparr>"

definition tie_b :: debug_light where
  "tie_b = \<lparr>debug_light.center_x = 100, is_light = False, ratio = 9 / 10, angle = 50\<rparr>"

definition ex_debug_armor_at :: "int \<Rightarrow> debug_armor" where
  "ex_debug_armor_at x =
     \<lparr>center_x = x, light_ratio = 1, center_distance = 20, armor_angle = 0\<rparr>"

definition ex_node :: "(nat \<times> nat) node" where
  "ex_node =
     BaseDetectorNode ''/share/armor_detector'' default_parameters default_light_params
       default_armor_params False"

definition ex_frame :: "(nat \<times> nat) image_msg" where
  "ex_frame = \<lparr>header = \<lparr>stamp = 0, frame_id = ''camera''\<rparr>, image = (640, 480)\<rparr>"

definition dark_frame :: "(nat \<times> nat) image_msg" where
  "dark_frame = \<lparr>header = \<lparr>stamp = 1, frame_id = ''camera''\<rparr>, image = (0, 0)\<rparr>"

text \<open>The armor the concrete stages match in \<open>ex_frame\<close>.\<close>

definition ex_armor :: "(nat \<times> nat) armor" where
  "ex_armor = Armor (0, 0) (ex_light 100) (ex_light 140) SMALL"

text \<open>The intrinsics and a depth map for evaluating the depth processor.\<close>

definition ex_dp :: depth_processor where
  "ex_dp = \<lparr>fx = 500, fy = 500, cx = 0, cy = 0\<rparr>"

definition ex_depth :: depth_map where
  "ex_depth = [replicate 101 (Depth 2), [Depth 0, NotANumber, Depth (- 1)]]"

section \<open>Properties of the detector node\<close>

subsection \<open>Traces\<close>

lemma param_reads_pipeline_events: "param_reads (pipeline_events es) = param_reads es"
  by (induction es rule: pipeline_events.induct) simp_all

lemma stage_calls_pipeline_events: "stage_calls (pipeline_events es) = stage_calls es"
  by (induction es rule: pipeline_events.induct) simp_all

lemma no_pipeline_events:
  assumes "pipeline_events ds = []"
  shows "param_reads ds = []" and "stage_calls ds = []"
  using param_reads_pipeline_events [of ds] stage_calls_pipeline_events [of ds] assms
  by simp_all

lemma stage_calls_append: "stage_calls (xs @ ys) = stage_calls xs @ stage_calls ys"
  by (induction xs rule: stage_calls.induct) simp_all

lemma param_reads_append: "param_reads (xs @ ys) = param_reads xs @ param_reads ys"
  by (induction xs rule: param_reads.induct) simp_all

lemma pipeline_events_append:
  "pipeline_events (xs @ ys) = pipeline_events xs @ pipeline_events ys"
  by (induction xs rule: pipeline_events.induct) simp_all

lemma published_lights_append:
  "published_lights (xs @ ys) = published_lights xs @ published_lights ys"
  by (induction xs rule: published_lights.induct) simp_all

lemma published_armors_append:
  "published_armors (xs @ ys) = published_armors xs @ published_armors ys"
  by (induction xs rule: published_armors.induct) simp_all

lemma frame_events_append: "trace node' = trace node @ es \<Longrightarrow> frame_events node node' = es"
  by (simp add: frame_events_def)

lemma pipeline_empty:
  assumes "preprocessImage ops (snapshot node) img = (binary_img, d1)"
    and "findLights ops d1 img binary_img = (lights, d2)"
    and "matchLights ops d2 lights = ([], d3)"
  shows "pipeline ops node img =
           (binary_img, lights, [],
            node\<lparr>detector := d3,
                 trace := trace node @ [GetParameter ''min_lightness'', GetParameter ''detect_color'',
                   Call PreprocessImage, Call FindLights, Call MatchLights]\<rparr>)"
  using assms by (simp add: pipeline_def snapshot_def emit_def Let_def)

lemma pipeline_nonempty:
  assumes "preprocessImage ops (snapshot node) img = (binary_img, d1)"
    and "findLights ops d1 img binary_img = (lights, d2)"
    and "matchLights ops d2 lights = (matched, d3)"
    and "matched \<noteq> []"
    and "extractNumbers ops (classifier node) img matched = (armors1, c1)"
    and "doClassify ops (c1\<lparr>threshold := p_classifier_threshold (parameters node)\<rparr>) armors1 = (armors2, c2)"
  shows "pipeline ops node img =
           (binary_img, lights, armors2,
            node\<lparr>detector := d3, classifier := c2,
                 trace := trace node @ [GetParameter ''min_lightness'', GetParameter ''detect_color'',
                   Call PreprocessImage, Call FindLights, Call MatchLights,
                   Call ExtractNumbers, GetParameter ''classifier.threshold'', Call DoClassify]\<rparr>)"
  using assms by (simp add: pipeline_def snapshot_def emit_def Let_def)

lemma publish_debug_armors:
  "fst (publish_debug ops t0 t1 hdr img binary_img lights armors node) = resize_numbers ops armors"
  by (simp add: publish_debug_def resize_numbers_def Let_def split_beta)

lemma publish_debug_trace:
  "trace (snd (publish_debug ops t0 t1 hdr img binary_img lights armors node)) =
     trace node @
     [LogInfo (real_of_int (t1 - t0) / 1000000000 * 1000),
      PublishBinaryImg hdr binary_img,
      PublishLights (sort_lights ops (debug_lights (detector node))),
      PublishArmors (sort_armors ops (debug_armors (detector node)))] @
     (if armors \<noteq> [] then
        [PublishNumber hdr (vconcat ops (map number_img (resize_numbers ops armors)))] else []) @
     [PublishFinalImg hdr
        (drawResults ops (cam_center node)
           (putText ops img (''Latency: '' @ to_string ops (real_of_int (t1 - t0) / 1000000000 * 1000) @ ''ms'')
              (10, 30) 1 (0, 255, 0) 2)
           lights (resize_numbers ops armors))]"
  by (simp add: publish_debug_def resize_numbers_def Let_def split_beta emit_def)

lemma detectArmors_pipeline:
  assumes "pipeline ops node (image img_msg) = (binary_img, lights, armors, n1)"
  shows "detectArmors ops t0 t1 node img_msg =
           (if debug n1 then
              publish_debug ops t0 t1 (header img_msg) (image img_msg) binary_img lights armors n1
            else (armors, n1))"
  using assms by (simp add: detectArmors_def Let_def)

lemma resize_numbers_fields:
  "map left_light (resize_numbers ops as) = map left_light as"
  "map right_light (resize_numbers ops as) = map right_light as"
  "map armor.center (resize_numbers ops as) = map armor.center as"
  "map size_category (resize_numbers ops as) = map size_category as"
  "map classfication_result (resize_numbers ops as) = map classfication_result as"
  "map confidence (resize_numbers ops as) = map confidence as"
  "map position (resize_numbers ops as) = map position as"
  by (simp_all add: resize_numbers_def)


lemma detectArmors_trace_shape:
  assumes pre: "preprocessImage ops (snapshot node) (image img_msg) = (binary_img, d1)"
    and fl: "findLights ops d1 (image img_msg) binary_img = (lights, d2)"
    and ml: "matchLights ops d2 lights = (matched, d3)"
  shows "\<exists>ds. trace (snd (detectArmors ops t0 t1 node img_msg)) =
            trace node @
            ([GetParameter ''min_lightness'', GetParameter ''detect_color'',
              Call PreprocessImage, Call FindLights, Call MatchLights] @
             (if matched \<noteq> [] then
                [Call ExtractNumbers, GetParameter ''classifier.threshold'', Call DoClassify]
              else [])) @ ds
          \<and> pipeline_events ds = []
          \<and> published_lights ds =
              (if debug node then [sort_lights ops (debug_lights d3)] else [])
          \<and> published_armors ds =
              (if debug node then [sort_armors ops (debug_armors d3)] else [])"
proof (cases "matched = []")
  case True
  note p = pipeline_empty [OF pre fl ml [unfolded True]]
  show ?thesis
    unfolding detectArmors_pipeline [OF p]
    by (simp add: True publish_debug_trace)
next
  case False
  obtain armors1 c1 where en: "extractNumbers ops (classifier node) (image img_msg) matched = (armors1, c1)"
    by (cases "extractNumbers ops (classifier node) (image img_msg) matched") auto
  obtain armors2 c2 where dc:
    "doClassify ops (c1\<lparr>threshold := p_classifier_threshold (parameters node)\<rparr>) armors1 = (armors2, c2)"
    by (cases "doClassify ops (c1\<lparr>threshold := p_classifier_threshold (parameters node)\<rparr>) armors1") auto
  note p = pipeline_nonempty [OF pre fl ml False en dc]
  show ?thesis
    unfolding detectArmors_pipeline [OF p]
    by (simp add: False publish_debug_trace)
qed

lemma detectArmors_value:
  assumes pre: "preprocessImage ops (snapshot node) (image img_msg) = (binary_img, d1)"
    and fl: "findLights ops d1 (image img_msg) binary_img = (lights, d2)"
    and ml: "matchLights ops d2 lights = (matched, d3)"
    and en: "extractNumbers ops (classifier node) (image img_msg) matched = (armors1, c1)"
    and dc: "doClassify ops (c1\<lparr>threshold := p_classifier_threshold (parameters node)\<rparr>) armors1 =
               (armors2, c2)"
  shows "fst (detectArmors ops t0 t1 node img_msg) =
           (if debug node then resize_numbers ops (if matched \<noteq> [] then armors2 else [])
            else (if matched \<noteq> [] then armors2 else []))"
proof (cases "matched = []")
  case True
  note p = pipeline_empty [OF pre fl ml [unfolded True]]
  show ?thesis
    unfolding detectArmors_pipeline [OF p] by (simp add: publish_debug_armors True)
next
  case False
  note p = pipeline_nonempty [OF pre fl ml False en dc]
  show ?thesis
    unfolding detectArmors_pipeline [OF p] by (simp add: publish_debug_armors False)
qed

lemma detectArmors_classifier:
  assumes pre: "preprocessImage ops (snapshot node) (image img_msg) = (binary_img, d1)"
    and fl: "findLights ops d1 (image img_msg) binary_img = (lights, d2)"
    and ml: "matchLights ops d2 lights = ([], d3)"
  shows "classifier (snd (detectArmors ops t0 t1 node img_msg)) = classifier node"
proof -
  note p = pipeline_empty [OF pre fl ml]
  show ?thesis
    unfolding detectArmors_pipeline [OF p]
    by (simp add: publish_debug_def Let_def emit_def)
qed

section \<open>Properties of the light matcher\<close>

lemma find_partner_Some:
  "find_partner f l rest = Some ((j, m), ty) \<Longrightarrow>
     (j, m) \<in> set rest \<and> color m = color l \<and> f l m = Some ty"
  by (induction f l rest rule: find_partner.induct) (auto split: if_splits option.splits)

lemma length_filter_index:
  "(j, m) \<in> set rest \<Longrightarrow> length (filter (\<lambda>(k, _). k \<noteq> j) rest) < length rest"
  by (induction rest) (auto simp: less_Suc_eq_le)

lemma match_from_length: "2 * length (match_from f xs) \<le> length xs"
proof (induction f xs rule: match_from.induct)
  case (1 f)
  show ?case by simp
next
  case (2 f i l rest)
  show ?case
  proof (cases "find_partner f l rest")
    case None
    with 2(1) show ?thesis by simp
  next
    case (Some r)
    obtain j m ty where r: "r = ((j, m), ty)" by (cases r) auto
    from Some r have fp: "find_partner f l rest = Some ((j, m), ty)" by simp
    from find_partner_Some [OF fp] have "(j, m) \<in> set rest" by simp
    from length_filter_index [OF this] 2(2) [OF fp refl refl]
    show ?thesis using fp by simp
  qed
qed

lemma used_lights_Nil: "used_lights [] = []"
  by (simp add: used_lights_def)

lemma used_lights_Cons:
  "used_lights (((i, l), (j, m), ty) # ps) = i # j # used_lights ps"
  by (simp add: used_lights_def)

lemma length_used_lights: "length (used_lights ps) = 2 * length ps"
  by (induction ps) (auto simp: used_lights_Nil used_lights_def)

lemma used_lights_subset: "set (used_lights (match_from f xs)) \<subseteq> fst ` set xs"
proof (induction f xs rule: match_from.induct)
  case (1 f)
  show ?case by (simp add: used_lights_Nil)
next
  case (2 f i l rest)
  show ?case
  proof (cases "find_partner f l rest")
    case None
    with 2(1) show ?thesis by auto
  next
    case (Some r)
    obtain j m ty where r: "r = ((j, m), ty)" by (cases r) auto
    from Some r have fp: "find_partner f l rest = Some ((j, m), ty)" by simp
    let ?rest = "filter (\<lambda>(k, _). k \<noteq> j) rest"
    from find_partner_Some [OF fp] have "(j, m) \<in> set rest" by simp
    then have j: "j \<in> fst ` set rest" by force
    have "set (used_lights (match_from f ?rest)) \<subseteq> fst ` set ?rest"
      by (rule 2(2) [OF fp refl refl])
    also have "\<dots> \<subseteq> fst ` set rest" by auto
    finally have "set (used_lights (match_from f ?rest)) \<subseteq> fst ` set rest" .
    with j show ?thesis by (simp add: fp used_lights_Cons) blast
  qed
qed

lemma used_lights_distinct:
  "distinct (map fst xs) \<Longrightarrow> distinct (used_lights (match_from f xs))"
proof (induction f xs rule: match_from.induct)
  case (1 f)
  show ?case by (simp add: used_lights_Nil)
next
  case (2 f i l rest)
  from 2(3) have d: "distinct (map fst rest)" and i: "i \<notin> fst ` set rest" by auto
  show ?case
  proof (cases "find_partner f l rest")
    case None
    with 2(1) d show ?thesis by simp
  next
    case (Some r)
    obtain j m ty where r: "r = ((j, m), ty)" by (cases r) auto
    from Some r have fp: "find_partner f l rest = Some ((j, m), ty)" by simp
    let ?rest = "filter (\<lambda>(k, _). k \<noteq> j) rest"
    let ?used = "used_lights (match_from f ?rest)"
    from find_partner_Some [OF fp] have "(j, m) \<in> set rest" by simp
    then have j: "j \<in> fst ` set rest" by force
    have d': "distinct (map fst ?rest)" using d by (simp add: distinct_map_filter)
    have sub: "set ?used \<subseteq> fst ` set ?rest"
      by (rule used_lights_subset)
    have ni: "i \<notin> set ?used" using sub i by auto
    have nj: "j \<notin> set ?used" using sub by auto
    have ij: "i \<noteq> j" using i j by auto
    have "distinct ?used" by (rule 2(2) [OF fp refl refl d'])
    with ni nj ij show ?thesis by (simp add: fp used_lights_Cons)
  qed
qed

section \<open>The concrete instance, evaluated\<close>

lemma ex_sortLights: "sortLights [ex_light 140, ex_light 100] = [ex_light 100, ex_light 140]"
  by (simp add: sortLights_def ex_light_def less_eq_prod_def)

lemma ex_isArmor_pair: "ex_isArmor (ex_light 100) (ex_light 140) = Some SMALL"
  by (simp add: ex_isArmor_def ex_light_def)

lemma ex_match_pairs:
  "match_pairs ex_isArmor [ex_light 140, ex_light 100] =
     [((0, ex_light 100), (1, ex_light 140), SMALL)]"
  by (simp add: match_pairs_def ex_sortLights ex_isArmor_pair) (simp add: ex_light_def)

lemma ex_matched:
  "Detector_matchLights ex_isArmor (0, 0) [ex_light 140, ex_light 100] = [ex_armor]"
  by (simp add: Detector_matchLights_def ex_match_pairs ex_armor_def)

lemma no_lights_no_armors: "Detector_matchLights isArmor no_img [] = []"
  by (simp add: Detector_matchLights_def match_pairs_def sortLights_def)

lemma ex_snapshot: "snapshot ex_node = detector ex_node"
  by (simp add: snapshot_def ex_node_def BaseDetectorNode_def initDetector_def)

lemma ex_pre:
  "preprocessImage ex_ops (snapshot (ex_node\<lparr>debug := b\<rparr>)) (image ex_frame) =
     ((640, 480), detector ex_node)"
  by (simp add: ex_ops_def ex_frame_def snapshot_def ex_node_def BaseDetectorNode_def initDetector_def)

lemma ex_fl:
  "findLights ex_ops (detector ex_node) (image ex_frame) (640, 480) =
     ([ex_light 140, ex_light 100],
      (detector ex_node)\<lparr>debug_lights := [ex_debug_light 140, ex_debug_light 100]\<rparr>)"
  by (simp add: ex_ops_def ex_frame_def ex_findLights_def)

lemma ex_ml:
  "matchLights ex_ops ((detector ex_node)\<lparr>debug_lights := [ex_debug_light 140, ex_debug_light 100]\<rparr>)
     [ex_light 140, ex_light 100] =
     ([ex_armor],
      (detector ex_node)\<lparr>debug_lights := [ex_debug_light 140, ex_debug_light 100],
                         debug_armors := [ex_debug_armor ex_armor]\<rparr>)"
  by (simp add: ex_ops_def ex_matchLights_def ex_matched)

lemma ex_en:
  "extractNumbers ex_ops (classifier (ex_node\<lparr>debug := b\<rparr>)) (image ex_frame) [ex_armor] =
     ([ex_armor\<lparr>number_img := (20, 28)\<rparr>], classifier ex_node)"
  by (simp add: ex_ops_def)

lemma ex_dc:
  "doClassify ex_ops
     ((classifier ex_node)\<lparr>threshold := p_classifier_threshold (parameters (ex_node\<lparr>debug := b\<rparr>))\<rparr>)
     [ex_armor\<lparr>number_img := (20, 28)\<rparr>] =
     ([ex_armor\<lparr>number_img := (20, 28), classfication_result := ''3'', confidence := 9 / 10\<rparr>],
      classifier ex_node)"
  by (simp add: ex_ops_def ex_node_def BaseDetectorNode_def)

lemma dark_pre:
  "preprocessImage ex_ops (snapshot (ex_node\<lparr>debug := b\<rparr>)) (image dark_frame) =
     ((0, 0), detector ex_node)"
  by (simp add: ex_ops_def dark_frame_def snapshot_def ex_node_def BaseDetectorNode_def initDetector_def)

lemma dark_fl:
  "findLights ex_ops (detector ex_node) (image dark_frame) (0, 0) = ([], detector ex_node)"
  by (simp add: ex_ops_def dark_frame_def ex_findLights_def ex_node_def BaseDetectorNode_def
      initDetector_def)

lemma dark_ml:
  "matchLights ex_ops (detector ex_node) [] = ([], detector ex_node)"
  by (simp add: ex_ops_def ex_matchLights_def no_lights_no_armors ex_node_def BaseDetectorNode_def
      initDetector_def)

section \<open>The claims about the detector node\<close>







lemma frame_events_shape:
  assumes pre: "preprocessImage ops (snapshot node) (image img_msg) = (binary_img, d1)"
    and fl: "findLights ops d1 (image img_msg) binary_img = (lights, d2)"
    and ml: "matchLights ops d2 lights = (matched, d3)"
  shows "\<exists>ds. frame_events node (snd (detectArmors ops t0 t1 node img_msg)) =
            ([GetParameter ''min_lightness'', GetParameter ''detect_color'',
              Call PreprocessImage, Call FindLights, Call MatchLights] @
             (if matched \<noteq> [] then
                [Call ExtractNumbers, GetParameter ''classifier.threshold'', Call DoClassify]
              else [])) @ ds
          \<and> pipeline_events ds = []
          \<and> published_lights ds =
              (if debug node then [sort_lights ops (debug_lights d3)] else [])
          \<and> published_armors ds =
              (if debug node then [sort_armors ops (debug_armors d3)] else [])"
proof -
  from detectArmors_trace_shape [OF pre fl ml, of t0 t1]
  obtain ds where tr: "trace (snd (detectArmors ops t0 t1 node img_msg)) =
            trace node @
            ([GetParameter ''min_lightness'', GetParameter ''detect_color'',
              Call PreprocessImage, Call FindLights, Call MatchLights] @
             (if matched \<noteq> [] then
                [Call ExtractNumbers, GetParameter ''classifier.threshold'', Call DoClassify]
              else [])) @ ds"
    and rest: "pipeline_events ds = []"
      "published_lights ds =
              (if debug node then [sort_lights ops (debug_lights d3)] else [])"
      "published_armors ds =
              (if debug node then [sort_armors ops (debug_armors d3)] else [])"
    by blast
  from frame_events_append [OF tr] rest show ?thesis by blast
qed

text \<open>
  Claim C2, as amended. In every frame \<^verbatim>\<open>min_lightness\<close> and \<^verbatim>\<open>detect_color\<close> are read
  once each, at the start, before any stage is called, and the stages get the detector
  with these two values. \<^verbatim>\<open>classifier.threshold\<close> is read once, after the numbers have
  been extracted and right before the classification, and only when the matched armor
  list is not empty. No parameter is read twice in a frame; the reads of a frame form
  one block at its start exactly when no armor is matched.
\<close>

theorem detectArmors_parameter_reads:
  assumes pre: "preprocessImage ops (snapshot node) (image img_msg) = (binary_img, d1)"
    and fl: "findLights ops d1 (image img_msg) binary_img = (lights, d2)"
    and ml: "matchLights ops d2 lights = (matched, d3)"
    and run: "detectArmors ops t0 t1 node img_msg = (armors, node')"
  shows "pipeline_events (frame_events node node') =
           [GetParameter ''min_lightness'', GetParameter ''detect_color'',
            Call PreprocessImage, Call FindLights, Call MatchLights] @
           (if matched \<noteq> [] then
              [Call ExtractNumbers, GetParameter ''classifier.threshold'', Call DoClassify]
            else [])
         \<and> param_reads (frame_events node node') =
           [''min_lightness'', ''detect_color''] @
           (if matched \<noteq> [] then [''classifier.threshold''] else [])
         \<and> distinct (param_reads (frame_events node node'))
         \<and> reads_only_at_start (frame_events node node') = (matched = [])
         \<and> min_lightness (snapshot node) = p_min_lightness (parameters node)
         \<and> detect_color (snapshot node) = p_detect_color (parameters node)"
proof -
  from frame_events_shape [OF pre fl ml, of t0 t1] run
  obtain ds where fe: "frame_events node node' =
            ([GetParameter ''min_lightness'', GetParameter ''detect_color'',
              Call PreprocessImage, Call FindLights, Call MatchLights] @
             (if matched \<noteq> [] then
                [Call ExtractNumbers, GetParameter ''classifier.threshold'', Call DoClassify]
              else [])) @ ds"
    and nds: "pipeline_events ds = []"
    by auto
  note none = no_pipeline_events [OF nds]
  show ?thesis
    unfolding fe
    by (simp add: pipeline_events_append param_reads_append nds none reads_only_at_start_def
        snapshot_def)
qed

text \<open>
  In \<open>ex_frame\<close> one armor is matched: the frame reads all three parameters.
\<close>

theorem detectArmors_parameter_reads_witness:
  "pipeline_events (frame_events ex_node (snd (detectArmors ex_ops 0 1000000 ex_node ex_frame))) =
     [GetParameter ''min_lightness'', GetParameter ''detect_color'',
      Call PreprocessImage, Call FindLights, Call MatchLights,
      Call ExtractNumbers, GetParameter ''classifier.threshold'', Call DoClassify]
   \<and> param_reads (frame_events ex_node (snd (detectArmors ex_ops 0 1000000 ex_node ex_frame))) =
     [''min_lightness'', ''detect_color'', ''classifier.threshold'']"
  using detectArmors_parameter_reads [OF ex_pre [of False] ex_fl ex_ml,
      of 0 1000000 "fst (detectArmors ex_ops 0 1000000 ex_node ex_frame)"
         "snd (detectArmors ex_ops 0 1000000 ex_node ex_frame)"]
  by (simp add: ex_node_def BaseDetectorNode_def)

text \<open>
  Claim C2 as stated fails: in \<open>ex_frame\<close> the parameter \<^verbatim>\<open>classifier.threshold\<close> is read
  after the leading block of parameter reads, when the image has been binarised, the
  lights found and matched and the numbers extracted.
\<close>

theorem threshold_read_mid_frame:
  "param_reads (after_leading_reads
       (frame_events ex_node (snd (detectArmors ex_ops 0 1000000 ex_node ex_frame)))) =
     [''classifier.threshold'']
   \<and> \<not> reads_only_at_start
       (frame_events ex_node (snd (detectArmors ex_ops 0 1000000 ex_node ex_frame)))"
proof -
  have n: "ex_node\<lparr>debug := False\<rparr> = ex_node"
    by (simp add: ex_node_def BaseDetectorNode_def)
  from frame_events_shape [OF ex_pre [of False, unfolded n] ex_fl ex_ml, of 0 1000000]
  obtain ds where fe: "frame_events ex_node (snd (detectArmors ex_ops 0 1000000 ex_node ex_frame)) =
            [GetParameter ''min_lightness'', GetParameter ''detect_color'',
              Call PreprocessImage, Call FindLights, Call MatchLights,
              Call ExtractNumbers, GetParameter ''classifier.threshold'', Call DoClassify] @ ds"
    by auto
  have "pipeline_events ds = []"
    using frame_events_shape [OF ex_pre [of False, unfolded n] ex_fl ex_ml, of 0 1000000] fe
    by auto
  note none = no_pipeline_events [OF this]
  show ?thesis
    unfolding fe by (simp add: reads_only_at_start_def param_reads_append none)
qed

text \<open>
  Claim C3. In every frame \<^verbatim>\<open>detectArmors\<close> calls \<^verbatim>\<open>preprocessImage\<close>, \<^verbatim>\<open>findLights\<close> and
  \<^verbatim>\<open>matchLights\<close>, in this order, each on the result of the one before; it calls
  \<^verbatim>\<open>extractNumbers\<close> and then \<^verbatim>\<open>doClassify\<close> if and only if the matched armor list is
  not empty; and it returns the armor list: the classified armors, or the empty matched
  list (with the debug flag on, after the resize of the number images).
\<close>

theorem detectArmors_stage_order:
  assumes pre: "preprocessImage ops (snapshot node) (image img_msg) = (binary_img, d1)"
    and fl: "findLights ops d1 (image img_msg) binary_img = (lights, d2)"
    and ml: "matchLights ops d2 lights = (matched, d3)"
    and en: "extractNumbers ops (classifier node) (image img_msg) matched = (armors1, c1)"
    and dc: "doClassify ops (c1\<lparr>threshold := p_classifier_threshold (parameters node)\<rparr>) armors1 =
               (armors2, c2)"
    and run: "detectArmors ops t0 t1 node img_msg = (armors, node')"
  shows "stage_calls (frame_events node node') =
           [PreprocessImage, FindLights, MatchLights] @
           (if matched \<noteq> [] then [ExtractNumbers, DoClassify] else [])
         \<and> (ExtractNumbers \<in> set (stage_calls (frame_events node node'))) = (matched \<noteq> [])
         \<and> (DoClassify \<in> set (stage_calls (frame_events node node'))) = (matched \<noteq> [])
         \<and> armors =
           (if debug node then resize_numbers ops (if matched \<noteq> [] then armors2 else matched)
            else (if matched \<noteq> [] then armors2 else matched))"
proof -
  from frame_events_shape [OF pre fl ml, of t0 t1] run
  obtain ds where fe: "frame_events node node' =
            ([GetParameter ''min_lightness'', GetParameter ''detect_color'',
              Call PreprocessImage, Call FindLights, Call MatchLights] @
             (if matched \<noteq> [] then
                [Call ExtractNumbers, GetParameter ''classifier.threshold'', Call DoClassify]
              else [])) @ ds"
    and nds: "pipeline_events ds = []"
    by auto
  note none = no_pipeline_events [OF nds]
  have calls: "stage_calls (frame_events node node') =
           [PreprocessImage, FindLights, MatchLights] @
           (if matched \<noteq> [] then [ExtractNumbers, DoClassify] else [])"
    unfolding fe by (simp add: stage_calls_append none)
  have val: "armors =
           (if debug node then resize_numbers ops (if matched \<noteq> [] then armors2 else matched)
            else (if matched \<noteq> [] then armors2 else matched))"
    using detectArmors_value [OF pre fl ml en dc, of t0 t1] run by auto
  show ?thesis unfolding calls using val by simp
qed

text \<open>
  \<open>ex_frame\<close> runs all five stages and returns the classified armor; \<open>dark_frame\<close>
  runs the first three and returns no armor.
\<close>

theorem detectArmors_stage_order_witness:
  "stage_calls (frame_events ex_node (snd (detectArmors ex_ops 0 1000000 ex_node ex_frame))) =
     [PreprocessImage, FindLights, MatchLights, ExtractNumbers, DoClassify]
   \<and> fst (detectArmors ex_ops 0 1000000 ex_node ex_frame) =
     [ex_armor\<lparr>number_img := (20, 28), classfication_result := ''3'', confidence := 9 / 10\<rparr>]
   \<and> stage_calls (frame_events ex_node (snd (detectArmors ex_ops 0 1000000 ex_node dark_frame))) =
     [PreprocessImage, FindLights, MatchLights]
   \<and> fst (detectArmors ex_ops 0 1000000 ex_node dark_frame) = []"
proof -
  have n: "ex_node\<lparr>debug := False\<rparr> = ex_node" and d: "\<not> debug ex_node"
    by (simp_all add: ex_node_def BaseDetectorNode_def)
  obtain as c where en: "extractNumbers ex_ops (classifier ex_node) (image dark_frame) [] = (as, c)"
    by (cases "extractNumbers ex_ops (classifier ex_node) (image dark_frame) []") auto
  obtain bs c' where dc: "doClassify ex_ops
      (c\<lparr>threshold := p_classifier_threshold (parameters ex_node)\<rparr>) as = (bs, c')"
    by (cases "doClassify ex_ops (c\<lparr>threshold := p_classifier_threshold (parameters ex_node)\<rparr>) as")
      auto
  from detectArmors_stage_order [OF ex_pre [of False, unfolded n] ex_fl ex_ml
      ex_en [of False, unfolded n] ex_dc [of False, unfolded n] surjective_pairing, of 0 1000000]
    detectArmors_stage_order [OF dark_pre [of False, unfolded n] dark_fl dark_ml
      en dc surjective_pairing, of 0 1000000]
  show ?thesis by (simp add: d)
qed

text \<open>
  Claim C4. A frame in which no armor is matched, and so a frame with no lights when
  the matcher is the one of the light matcher section, is an ordinary end of
  \<^verbatim>\<open>detectArmors\<close>: it returns the empty list, calls neither \<^verbatim>\<open>extractNumbers\<close> nor
  \<^verbatim>\<open>doClassify\<close> and leaves the classifier as it was. \<^verbatim>\<open>detectArmors\<close> is a total function
  with no error result, so it returns on these frames as on every other.
\<close>

theorem no_detection_is_terminal:
  assumes pre: "preprocessImage ops (snapshot node) (image img_msg) = (binary_img, d1)"
    and fl: "findLights ops d1 (image img_msg) binary_img = (lights, d2)"
    and ml: "matchLights ops d2 lights = (matched, d3)"
    and zero: "matched = [] \<or> (lights = [] \<and> matched = Detector_matchLights isArmor no_img lights)"
    and run: "detectArmors ops t0 t1 node img_msg = (armors, node')"
  shows "armors = []
         \<and> stage_calls (frame_events node node') = [PreprocessImage, FindLights, MatchLights]
         \<and> ExtractNumbers \<notin> set (stage_calls (frame_events node node'))
         \<and> DoClassify \<notin> set (stage_calls (frame_events node node'))
         \<and> classifier node' = classifier node"
proof -
  from zero have m: "matched = []"
    by (auto simp: no_lights_no_armors)
  from frame_events_shape [OF pre fl ml, of t0 t1] run
  obtain ds where fe: "frame_events node node' =
            [GetParameter ''min_lightness'', GetParameter ''detect_color'',
              Call PreprocessImage, Call FindLights, Call MatchLights] @ ds"
    and nds: "pipeline_events ds = []"
    by (auto simp: m)
  note none = no_pipeline_events [OF nds]
  have calls: "stage_calls (frame_events node node') = [PreprocessImage, FindLights, MatchLights]"
    unfolding fe by (simp add: stage_calls_append none)
  obtain as c where en: "extractNumbers ops (classifier node) (image img_msg) matched = (as, c)"
    by (cases "extractNumbers ops (classifier node) (image img_msg) matched") auto
  obtain bs c' where dc: "doClassify ops
      (c\<lparr>threshold := p_classifier_threshold (parameters node)\<rparr>) as = (bs, c')"
    by (cases "doClassify ops (c\<lparr>threshold := p_classifier_threshold (parameters node)\<rparr>) as") auto
  have val: "armors = []"
    using detectArmors_value [OF pre fl ml en dc, of t0 t1] run
    by (auto simp: m resize_numbers_def)
  have cl: "classifier node' = classifier node"
    using detectArmors_classifier [OF pre fl ml [unfolded m], of t0 t1] run by simp
  show ?thesis unfolding calls using val cl by simp
qed

text \<open>
  \<open>dark_frame\<close> has no lights and no armors.
\<close>

theorem no_detection_is_terminal_witness:
  "fst (detectArmors ex_ops 0 1000000 ex_node dark_frame) = []
   \<and> stage_calls (frame_events ex_node (snd (detectArmors ex_ops 0 1000000 ex_node dark_frame))) =
     [PreprocessImage, FindLights, MatchLights]
   \<and> classifier (snd (detectArmors ex_ops 0 1000000 ex_node dark_frame)) = classifier ex_node"
proof -
  have n: "ex_node\<lparr>debug := False\<rparr> = ex_node"
    by (simp add: ex_node_def BaseDetectorNode_def)
  have zero: "[] = [] \<or> ([] = [] \<and> [] = Detector_matchLights ex_isArmor (0::nat, 0::nat) [])"
    by simp
  from no_detection_is_terminal [OF dark_pre [of False, unfolded n] dark_fl dark_ml zero
      surjective_pairing, of 0 1000000]
  show ?thesis by simp
qed

lemma sort_key_contract: "std_sort_contract key (sort_key key)"
  by (simp add: std_sort_contract_def)

lemma std_sort_contract_keys:
  assumes "std_sort_contract key srt"
  shows "sorted (map key (srt xs))" and "mset (srt xs) = mset xs"
    and "map key (srt xs) = sorted_list_of_multiset (image_mset key (mset xs))"
proof -
  from assms show 1: "sorted (map key (srt xs))" and 2: "mset (srt xs) = mset xs"
    by (simp_all add: std_sort_contract_def)
  have "mset (map key (srt xs)) = mset (map key xs)"
    using 2 by simp
  from properties_for_sort [OF this 1] have "sort (map key xs) = map key (srt xs)" .
  moreover have "sorted_list_of_multiset (mset (map key xs)) = sort (map key xs)"
    by (rule sorted_list_of_multiset_mset)
  ultimately show "map key (srt xs) = sorted_list_of_multiset (image_mset key (mset xs))"
    by simp
qed

lemma sorted_permutation_unique:
  fixes f :: "'a \<Rightarrow> int"
  assumes xs: "sorted (map f xs)" and ys: "sorted (map f ys)"
    and perm: "mset xs = mset ys" and keys: "distinct (map f xs)"
  shows "xs = ys"
proof -
  have "mset (map f ys) = mset (map f xs)"
    using perm by simp
  from properties_for_sort [OF this ys] have 1: "sort (map f xs) = map f ys" .
  have "mset (map f xs) = mset (map f xs)" ..
  from properties_for_sort [OF this xs] have 2: "sort (map f xs) = map f xs" .
  from 1 2 have eq: "map f xs = map f ys" by simp
  have "set ys = set xs"
    using perm by (metis mset_eq_setD)
  moreover have "inj_on f (set xs)"
    using keys by (simp add: distinct_map)
  ultimately have "inj_on f (set xs \<union> set ys)" by simp
  from inj_on_map_eq_map [OF this] eq show ?thesis by simp
qed

lemma probe_stages:
  "preprocessImage (probe_ops dls das) (snapshot (ex_node\<lparr>debug := b\<rparr>)) (image ex_frame) =
     ((640, 480), detector ex_node)"
  "findLights (probe_ops dls das) (detector ex_node) (image ex_frame) (640, 480) =
     ([ex_light 100], (detector ex_node)\<lparr>debug_lights := dls\<rparr>)"
  "matchLights (probe_ops dls das) ((detector ex_node)\<lparr>debug_lights := dls\<rparr>) [ex_light 100] =
     ([], (detector ex_node)\<lparr>debug_lights := dls, debug_armors := das\<rparr>)"
  "sort_lights (probe_ops dls das) = sort_key debug_light.center_x"
  "sort_armors (probe_ops dls das) = sort_key debug_armor.center_x"
  by (simp_all add: probe_ops_def ex_ops_def ex_frame_def snapshot_def ex_node_def
      BaseDetectorNode_def initDetector_def)

text \<open>
  Claim C8, as amended. With the debug flag on, a frame publishes the debug lights once
  and the debug armors once, each after \<^verbatim>\<open>std::sort\<close> by \<^verbatim>\<open>center_x\<close>: what is published
  is in ascending order of \<^verbatim>\<open>center_x\<close>, it is a permutation of the records the detector
  holds after the stages, and its sequence of \<^verbatim>\<open>center_x\<close> values is a function of the
  multiset of records alone. When the \<^verbatim>\<open>center_x\<close> values of the records are pairwise
  different, the published list itself is the same for every order in which the
  detector found the records and for every sort that keeps the promise of
  \<^verbatim>\<open>std::sort\<close>. The order in which records with equal \<^verbatim>\<open>center_x\<close> are published is not
  fixed.
\<close>

theorem debug_records_published_sorted:
  assumes dbg: "debug node"
    and sl: "std_sort_contract debug_light.center_x (sort_lights ops)"
    and sa: "std_sort_contract debug_armor.center_x (sort_armors ops)"
    and pre: "preprocessImage ops (snapshot node) (image img_msg) = (binary_img, d1)"
    and fl: "findLights ops d1 (image img_msg) binary_img = (lights, d2)"
    and ml: "matchLights ops d2 lights = (matched, d3)"
    and run: "detectArmors ops t0 t1 node img_msg = (armors, node')"
  shows "published_lights (frame_events node node') = [sort_lights ops (debug_lights d3)]
         \<and> published_armors (frame_events node node') = [sort_armors ops (debug_armors d3)]
         \<and> list_all (\<lambda>ls. sorted (map debug_light.center_x ls)
              \<and> mset ls = mset (debug_lights d3)
              \<and> map debug_light.center_x ls =
                  sorted_list_of_multiset (image_mset debug_light.center_x (mset (debug_lights d3))))
             (published_lights (frame_events node node'))
         \<and> list_all (\<lambda>as. sorted (map debug_armor.center_x as)
              \<and> mset as = mset (debug_armors d3)
              \<and> map debug_armor.center_x as =
                  sorted_list_of_multiset (image_mset debug_armor.center_x (mset (debug_armors d3))))
             (published_armors (frame_events node node'))
         \<and> (distinct (map debug_light.center_x (debug_lights d3)) \<longrightarrow>
              (\<forall>srt xs. std_sort_contract debug_light.center_x srt
                  \<and> mset xs = mset (debug_lights d3) \<longrightarrow>
                published_lights (frame_events node node') = [srt xs]))
         \<and> (distinct (map debug_armor.center_x (debug_armors d3)) \<longrightarrow>
              (\<forall>srt xs. std_sort_contract debug_armor.center_x srt
                  \<and> mset xs = mset (debug_armors d3) \<longrightarrow>
                published_armors (frame_events node node') = [srt xs]))"
proof -
  from frame_events_shape [OF pre fl ml, of t0 t1] run dbg
  obtain ds where fe: "frame_events node node' =
            ([GetParameter ''min_lightness'', GetParameter ''detect_color'',
              Call PreprocessImage, Call FindLights, Call MatchLights] @
             (if matched \<noteq> [] then
                [Call ExtractNumbers, GetParameter ''classifier.threshold'', Call DoClassify]
              else [])) @ ds"
    and pl: "published_lights ds = [sort_lights ops (debug_lights d3)]"
    and pa: "published_armors ds = [sort_armors ops (debug_armors d3)]"
    by auto
  have 1: "published_lights (frame_events node node') = [sort_lights ops (debug_lights d3)]"
    unfolding fe by (simp add: published_lights_append pl)
  have 2: "published_armors (frame_events node node') = [sort_armors ops (debug_armors d3)]"
    unfolding fe by (simp add: published_armors_append pa)
  note ls = std_sort_contract_keys [OF sl, of "debug_lights d3"]
  note as = std_sort_contract_keys [OF sa, of "debug_armors d3"]
  have 3: "sort_lights ops (debug_lights d3) = srt xs"
    if "distinct (map debug_light.center_x (debug_lights d3))"
      and "std_sort_contract debug_light.center_x srt" and "mset xs = mset (debug_lights d3)"
    for srt xs
  proof (rule sorted_permutation_unique [where f = debug_light.center_x])
    note other = std_sort_contract_keys [OF that(2), of xs]
    show "sorted (map debug_light.center_x (sort_lights ops (debug_lights d3)))" by (rule ls(1))
    show "sorted (map debug_light.center_x (srt xs))" by (rule other(1))
    show "mset (sort_lights ops (debug_lights d3)) = mset (srt xs)"
      using ls(2) other(2) that(3) by simp
    have "mset (map debug_light.center_x (sort_lights ops (debug_lights d3))) =
        mset (map debug_light.center_x (debug_lights d3))"
      using ls(2) by simp
    then show "distinct (map debug_light.center_x (sort_lights ops (debug_lights d3)))"
      using that(1) by (metis mset_eq_imp_distinct_iff)
  qed
  have 4: "sort_armors ops (debug_armors d3) = srt xs"
    if "distinct (map debug_armor.center_x (debug_armors d3))"
      and "std_sort_contract debug_armor.center_x srt" and "mset xs = mset (debug_armors d3)"
    for srt xs
  proof (rule sorted_permutation_unique [where f = debug_armor.center_x])
    note other = std_sort_contract_keys [OF that(2), of xs]
    show "sorted (map debug_armor.center_x (sort_armors ops (debug_armors d3)))" by (rule as(1))
    show "sorted (map debug_armor.center_x (srt xs))" by (rule other(1))
    show "mset (sort_armors ops (debug_armors d3)) = mset (srt xs)"
      using as(2) other(2) that(3) by simp
    have "mset (map debug_armor.center_x (sort_armors ops (debug_armors d3))) =
        mset (map debug_armor.center_x (debug_armors d3))"
      using as(2) by simp
    then show "distinct (map debug_armor.center_x (sort_armors ops (debug_armors d3)))"
      using that(1) by (metis mset_eq_imp_distinct_iff)
  qed
  show ?thesis
    unfolding 1 2 using ls as 3 4 by simp
qed

text \<open>
  The detector holds three light records and three armor records, neither in order;
  they are published in the orders 100, 500, 900 and 300, 500, 700.
\<close>

theorem debug_records_published_sorted_witness:
  "published_lights
     (frame_events (ex_node\<lparr>debug := True\<rparr>)
        (snd (detectArmors
           (probe_ops [ex_debug_light 900, ex_debug_light 100, ex_debug_light 500]
              [ex_debug_armor_at 700, ex_debug_armor_at 300, ex_debug_armor_at 500])
           0 1000000 (ex_node\<lparr>debug := True\<rparr>) ex_frame))) =
     [[ex_debug_light 100, ex_debug_light 500, ex_debug_light 900]]
   \<and> published_armors
     (frame_events (ex_node\<lparr>debug := True\<rparr>)
        (snd (detectArmors
           (probe_ops [ex_debug_light 900, ex_debug_light 100, ex_debug_light 500]
              [ex_debug_armor_at 700, ex_debug_armor_at 300, ex_debug_armor_at 500])
           0 1000000 (ex_node\<lparr>debug := True\<rparr>) ex_frame))) =
     [[ex_debug_armor_at 300, ex_debug_armor_at 500, ex_debug_armor_at 700]]"
proof -
  let ?dls = "[ex_debug_light 900, ex_debug_light 100, ex_debug_light 500]"
  let ?das = "[ex_debug_armor_at 700, ex_debug_armor_at 300, ex_debug_armor_at 500]"
  have dbg: "debug (ex_node\<lparr>debug := True\<rparr>)" by simp
  have sl: "std_sort_contract debug_light.center_x (sort_lights (probe_ops ?dls ?das))"
    and sa: "std_sort_contract debug_armor.center_x (sort_armors (probe_ops ?dls ?das))"
    by (simp_all add: probe_stages sort_key_contract)
  note t = debug_records_published_sorted [OF dbg sl sa probe_stages(1) probe_stages(2)
      probe_stages(3) surjective_pairing, of 0 1000000]
  from t have 1: "published_lights
     (frame_events (ex_node\<lparr>debug := True\<rparr>)
        (snd (detectArmors (probe_ops ?dls ?das) 0 1000000 (ex_node\<lparr>debug := True\<rparr>) ex_frame))) =
     [sort_lights (probe_ops ?dls ?das) ?dls]"
    by simp
  from t have 2: "published_armors
     (frame_events (ex_node\<lparr>debug := True\<rparr>)
        (snd (detectArmors (probe_ops ?dls ?das) 0 1000000 (ex_node\<lparr>debug := True\<rparr>) ex_frame))) =
     [sort_armors (probe_ops ?dls ?das) ?das]"
    by simp
  show ?thesis
    unfolding 1 2 probe_stages by (simp add: ex_debug_light_def ex_debug_armor_at_def)
qed

text \<open>
  Claim C8 as stated fails where it says the report does not depend on the detection
  order. The records \<open>tie_a\<close> and \<open>tie_b\<close> have the same \<^verbatim>\<open>center_x\<close>; the insertion sort,
  which keeps the promise of \<^verbatim>\<open>std::sort\<close> and is what \<^verbatim>\<open>std::sort\<close> does on a range of two
  records, publishes them in the order in which the detector found them.
\<close>

theorem debug_report_depends_on_detection_order:
  "mset [tie_a, tie_b] = mset [tie_b, tie_a]
   \<and> std_sort_contract debug_light.center_x (sort_lights (probe_ops [tie_a, tie_b] []))
   \<and> sort_lights (probe_ops [tie_b, tie_a] []) = sort_lights (probe_ops [tie_a, tie_b] [])
   \<and> published_lights
       (frame_events (ex_node\<lparr>debug := True\<rparr>)
          (snd (detectArmors (probe_ops [tie_a, tie_b] []) 0 1000000
                  (ex_node\<lparr>debug := True\<rparr>) ex_frame))) = [[tie_a, tie_b]]
   \<and> published_lights
       (frame_events (ex_node\<lparr>debug := True\<rparr>)
          (snd (detectArmors (probe_ops [tie_b, tie_a] []) 0 1000000
                  (ex_node\<lparr>debug := True\<rparr>) ex_frame))) = [[tie_b, tie_a]]
   \<and> [tie_a, tie_b] \<noteq> [tie_b, tie_a]"
proof -
  have pub: "published_lights
       (frame_events (ex_node\<lparr>debug := True\<rparr>)
          (snd (detectArmors (probe_ops dls []) 0 1000000 (ex_node\<lparr>debug := True\<rparr>) ex_frame))) =
       [sort_key debug_light.center_x dls]" for dls
  proof -
    from frame_events_shape [OF probe_stages(1) [of dls "[]" True] probe_stages(2) [of dls "[]"]
        probe_stages(3) [of dls "[]"], of 0 1000000]
    obtain ds where fe: "frame_events (ex_node\<lparr>debug := True\<rparr>)
          (snd (detectArmors (probe_ops dls []) 0 1000000 (ex_node\<lparr>debug := True\<rparr>) ex_frame)) =
        [GetParameter ''min_lightness'', GetParameter ''detect_color'',
         Call PreprocessImage, Call FindLights, Call MatchLights] @ ds"
      and pl: "published_lights ds = [sort_lights (probe_ops dls []) dls]"
      by auto
    show ?thesis
      unfolding fe by (simp add: published_lights_append pl probe_stages)
  qed
  have 1: "sort_key debug_light.center_x [tie_a, tie_b] = [tie_a, tie_b]"
    and 2: "sort_key debug_light.center_x [tie_b, tie_a] = [tie_b, tie_a]"
    by (simp_all add: tie_a_def tie_b_def)
  have 3: "tie_a \<noteq> tie_b"
    by (simp add: tie_a_def tie_b_def)
  show ?thesis
    unfolding pub 1 2 using 3 by (simp add: probe_stages sort_key_contract)
qed

lemma publishMarkers_trace:
  "trace (publishMarkers node) = trace node @ [PublishMarkers (marker_array node @
     [(position_marker node)\<lparr>action := if armors_msg node = [] then DELETE else ADD\<rparr>])]"
  by (simp add: publishMarkers_def emit_def Let_def)

text \<open>
  Claim C10. \<^verbatim>\<open>publishMarkers\<close> publishes the marker array once, with the position marker
  appended as its last marker; the action of this marker is \<^verbatim>\<open>DELETE\<close> if and only if
  the armors message holds no armor, and \<^verbatim>\<open>ADD\<close> if and only if it holds one.
\<close>

theorem publishMarkers_action:
  "\<exists>ms. published_markers (frame_events node (publishMarkers node)) = [ms]
       \<and> ms = marker_array node @ [position_marker (publishMarkers node)]
       \<and> marker_array (publishMarkers node) = ms
       \<and> position_marker (publishMarkers node) =
           (position_marker node)\<lparr>action := action (last ms)\<rparr>
       \<and> (action (last ms) = DELETE) = (armors_msg node = [])
       \<and> (action (last ms) = ADD) = (armors_msg node \<noteq> [])"
proof -
  have tr: "trace (publishMarkers node) = trace node @
      [PublishMarkers (marker_array node @
        [(position_marker node)\<lparr>action := if armors_msg node = [] then DELETE else ADD\<rparr>])]"
    by (rule publishMarkers_trace)
  have pm: "position_marker (publishMarkers node) =
      (position_marker node)\<lparr>action := if armors_msg node = [] then DELETE else ADD\<rparr>"
    and ma: "marker_array (publishMarkers node) = marker_array node @
        [(position_marker node)\<lparr>action := if armors_msg node = [] then DELETE else ADD\<rparr>]"
    by (simp_all add: publishMarkers_def emit_def Let_def)
  show ?thesis
    unfolding frame_events_append [OF tr] pm ma
    by (simp add: ADD_def DELETE_def)
qed

section \<open>The claim about the light matcher\<close>

lemma match_from_members:
  "((i, l), (j, m), ty) \<in> set (match_from f xs) \<Longrightarrow>
     (i, l) \<in> set xs \<and> (j, m) \<in> set xs \<and> color m = color l \<and> f l m = Some ty"
proof (induction f xs rule: match_from.induct)
  case (1 f)
  then show ?case by simp
next
  case (2 f i' l' rest)
  show ?case
  proof (cases "find_partner f l' rest")
    case None
    with 2(1) 2(3) show ?thesis by auto
  next
    case (Some r)
    obtain j' m' ty' where r: "r = ((j', m'), ty')" by (cases r) auto
    from Some r have fp: "find_partner f l' rest = Some ((j', m'), ty')" by simp
    note found = find_partner_Some [OF fp]
    from 2(3) fp have "((i, l), (j, m), ty) = ((i', l'), (j', m'), ty')
        \<or> ((i, l), (j, m), ty) \<in> set (match_from f (filter (\<lambda>(k, _). k \<noteq> j') rest))"
      by simp
    then show ?thesis
    proof
      assume "((i, l), (j, m), ty) = ((i', l'), (j', m'), ty')"
      with found show ?thesis by simp
    next
      assume "((i, l), (j, m), ty) \<in> set (match_from f (filter (\<lambda>(k, _). k \<noteq> j') rest))"
      from 2(2) [OF fp refl refl this] show ?thesis by simp
    qed
  qed
qed

lemma enumerate_member: "(i, l) \<in> set (enumerate 0 xs) \<Longrightarrow> i < length xs \<and> xs ! i = l"
  by (auto simp: in_set_enumerate_eq)

text \<open>
  Claim C7. For every list of lights the matcher returns at most half as many armors
  as there are lights, rounded down, and no light is part of two armors: the numbers of
  the lights the pairs use are pairwise different, each is the number of a light of
  the frame, and each armor is made of the two lights that have its pair's numbers in
  the sorted list.
\<close>

theorem matchLights_bound:
  "length (Detector_matchLights isArmor no_img lights) \<le> length lights div 2
   \<and> distinct (used_lights (match_pairs isArmor lights))
   \<and> list_all (\<lambda>i. i < length lights) (used_lights (match_pairs isArmor lights))
   \<and> list_all (\<lambda>((i, l), (j, m), ty).
         sortLights lights ! i = l \<and> sortLights lights ! j = m
         \<and> color m = color l \<and> isArmor l m = Some ty)
       (match_pairs isArmor lights)
   \<and> map left_light (Detector_matchLights isArmor no_img lights) =
       map (\<lambda>((i, l), (j, m), ty). l) (match_pairs isArmor lights)
   \<and> map right_light (Detector_matchLights isArmor no_img lights) =
       map (\<lambda>((i, l), (j, m), ty). m) (match_pairs isArmor lights)"
proof -
  let ?xs = "enumerate 0 (sortLights lights)"
  have len: "length ?xs = length lights" by (simp add: sortLights_def)
  have fst: "map fst ?xs = [0..<length lights]" by (simp add: sortLights_def)
  have a: "length (Detector_matchLights isArmor no_img lights) \<le> length lights div 2"
    using match_from_length [of isArmor ?xs] len
    by (simp add: Detector_matchLights_def match_pairs_def)
  have b: "distinct (used_lights (match_pairs isArmor lights))"
    unfolding match_pairs_def by (rule used_lights_distinct) (simp add: fst)
  have "set (map fst ?xs) = set [0..<length lights]"
    by (simp only: fst)
  then have img: "fst ` set ?xs = set [0..<length lights]"
    by (simp only: set_map)
  have "set (used_lights (match_pairs isArmor lights)) \<subseteq> set [0..<length lights]"
    unfolding match_pairs_def img [symmetric] by (rule used_lights_subset)
  then have c: "list_all (\<lambda>i. i < length lights) (used_lights (match_pairs isArmor lights))"
    by (auto simp: list_all_iff)
  have d: "list_all (\<lambda>((i, l), (j, m), ty).
         sortLights lights ! i = l \<and> sortLights lights ! j = m
         \<and> color m = color l \<and> isArmor l m = Some ty)
       (match_pairs isArmor lights)"
    unfolding list_all_iff match_pairs_def
    using match_from_members [of _ _ _ _ _ isArmor ?xs] enumerate_member [of _ _ "sortLights lights"]
    by (auto simp del: enumerate_eq_zip)
  have e: "map left_light (Detector_matchLights isArmor no_img lights) =
       map (\<lambda>((i, l), (j, m), ty). l) (match_pairs isArmor lights)"
    and f: "map right_light (Detector_matchLights isArmor no_img lights) =
       map (\<lambda>((i, l), (j, m), ty). m) (match_pairs isArmor lights)"
    by (simp_all add: Detector_matchLights_def Armor_def split_beta)
  from a b c d e f show ?thesis by blast
qed

section \<open>The claims about the depth processor\<close>

lemma getPosition_invalid:
  assumes "sample_depth depth_image p = Some s" and "invalid_depth s"
  shows "getPosition dp depth_image p = Inl InvalidDepth"
  using assms by (cases s) (auto simp: getPosition_def)

lemma computePositions_fields:
  "length (computePositions dp depth armors) = length armors"
  "map left_light (computePositions dp depth armors) = map left_light armors"
  "map right_light (computePositions dp depth armors) = map right_light armors"
  "map armor.center (computePositions dp depth armors) = map armor.center armors"
  "map size_category (computePositions dp depth armors) = map size_category armors"
  "map number_img (computePositions dp depth armors) = map number_img armors"
  "map classfication_result (computePositions dp depth armors) = map classfication_result armors"
  "map confidence (computePositions dp depth armors) = map confidence armors"
  by (simp_all add: computePositions_def locate_def split: option.splits)

lemma ex_samples:
  "sample_depth ex_depth (0, 1) = Some (Depth 0)"
  "sample_depth ex_depth (1, 1) = Some NotANumber"
  "sample_depth ex_depth (2, 1) = Some (Depth (- 1))"
  "sample_depth ex_depth (0, 0) = Some (Depth 2)"
  "sample_depth ex_depth (100, 0) = Some (Depth 2)"
  by (simp_all add: sample_depth_def ex_depth_def)

text \<open>
  Claim C5. When the depth sampled at an image point is zero, negative or not a number,
  \<^verbatim>\<open>getPosition\<close> fails with \<open>InvalidDepth\<close> and returns no position. An armor whose
  centre is such a point stays in the list with no position; the step that computes
  the positions keeps the length of the list and every armor's lights, centre, size
  category, classification result and confidence.
\<close>

theorem getPosition_invalid_depth:
  assumes "sample_depth depth_image p = Some s" and "invalid_depth s"
  shows "getPosition dp depth_image p = Inl InvalidDepth
         \<and> (armor.center a = p \<longrightarrow> locate dp depth_image a = a\<lparr>position := None\<rparr>)
         \<and> (armor.center a = p \<and> a \<in> set armors \<longrightarrow>
              a\<lparr>position := None\<rparr> \<in> set (computePositions dp (Some depth_image) armors))
         \<and> length (computePositions dp (Some depth_image) armors) = length armors
         \<and> map left_light (computePositions dp (Some depth_image) armors) = map left_light armors
         \<and> map right_light (computePositions dp (Some depth_image) armors) = map right_light armors
         \<and> map armor.center (computePositions dp (Some depth_image) armors) =
             map armor.center armors
         \<and> map size_category (computePositions dp (Some depth_image) armors) =
             map size_category armors
         \<and> map classfication_result (computePositions dp (Some depth_image) armors) =
             map classfication_result armors
         \<and> map confidence (computePositions dp (Some depth_image) armors) = map confidence armors"
proof -
  note inv = getPosition_invalid [OF assms, of dp]
  have loc: "armor.center a = p \<Longrightarrow> locate dp depth_image a = a\<lparr>position := None\<rparr>"
    using inv by (simp add: locate_def)
  then have "armor.center a = p \<and> a \<in> set armors \<Longrightarrow>
      a\<lparr>position := None\<rparr> \<in> set (computePositions dp (Some depth_image) armors)"
    by (force simp: computePositions_def)
  with inv loc show ?thesis
    by (simp add: computePositions_fields)
qed

text \<open>
  The second row of \<open>ex_depth\<close> holds a zero, a not-a-number and a negative sample.
\<close>

theorem getPosition_invalid_depth_witness:
  "getPosition ex_dp ex_depth (0, 1) = Inl InvalidDepth
   \<and> getPosition ex_dp ex_depth (1, 1) = Inl InvalidDepth
   \<and> getPosition ex_dp ex_depth (2, 1) = Inl InvalidDepth
   \<and> computePositions ex_dp (Some ex_depth) [ex_armor\<lparr>armor.center := (1, 1)\<rparr>] =
       [ex_armor\<lparr>armor.center := (1, 1), position := None\<rparr>]"
proof -
  have i: "invalid_depth (Depth 0)" "invalid_depth NotANumber" "invalid_depth (Depth (- 1))"
    by simp_all
  let ?a = "ex_armor\<lparr>armor.center := (1, 1)\<rparr>"
  have c: "armor.center ?a = (1, 1)" by simp
  note z = getPosition_invalid_depth [OF ex_samples(1) i(1), of ex_dp ?a "[?a]", THEN conjunct1]
  note n = getPosition_invalid_depth [OF ex_samples(2) i(2), of ex_dp ?a "[?a]"]
  note m = getPosition_invalid_depth [OF ex_samples(3) i(3), of ex_dp ?a "[?a]", THEN conjunct1]
  from n have l: "locate ex_dp ex_depth ?a = ?a\<lparr>position := None\<rparr>"
    using c by blast
  have "computePositions ex_dp (Some ex_depth) [?a] = [locate ex_dp ex_depth ?a]"
    by (simp add: computePositions_def)
  with l z m n [THEN conjunct1] show ?thesis by simp
qed

text \<open>
  Claim C6. For an image point \<open>(u, v)\<close> whose sampled depth \<open>d\<close> is valid,
  \<^verbatim>\<open>getPosition\<close> returns \<open>((u - cx) * d / fx, (v - cy) * d / fy, d)\<close>; the focal lengths
  are taken to be different from zero, since the quotient is not defined otherwise.
  With \<open>fx = fy = 500\<close>, \<open>cx = cy = 0\<close> and depth 2, the point \<open>(0, 0)\<close> gives exactly
  \<open>(0, 0, 2)\<close> and the point \<open>(100, 0)\<close> gives \<open>X = 0.4\<close>.
\<close>

theorem getPosition_back_projection:
  "(sample_depth depth_image (u, v) = Some (Depth d) \<and> 0 < d \<and> fx dp \<noteq> 0 \<and> fy dp \<noteq> 0 \<longrightarrow>
      getPosition dp depth_image (u, v) =
        Inr ((u - cx dp) * d / fx dp, (v - cy dp) * d / fy dp, d))
   \<and> (sample_depth depth_image (0, 0) = Some (Depth 2) \<longrightarrow>
      getPosition \<lparr>fx = 500, fy = 500, cx = 0, cy = 0\<rparr> depth_image (0, 0) = Inr (0, 0, 2))
   \<and> (sample_depth depth_image (100, 0) = Some (Depth 2) \<longrightarrow>
      getPosition \<lparr>fx = 500, fy = 500, cx = 0, cy = 0\<rparr> depth_image (100, 0) =
        Inr (4 / 10, 0, 2))"
  by (simp add: getPosition_def)

text \<open>
  The first row of \<open>ex_depth\<close> holds the depth 2 at the columns 0 to 100.
\<close>

theorem getPosition_back_projection_witness:
  "getPosition ex_dp ex_depth (0, 0) = Inr (0, 0, 2)
   \<and> getPosition ex_dp ex_depth (100, 0) = Inr (4 / 10, 0, 2)
   \<and> getPosition (ex_dp\<lparr>cx := 320, cy := 240\<rparr>) ex_depth (20, 0) = Inr (- 12 / 10, - 96 / 100, 2)"
proof -
  have s: "sample_depth ex_depth (20, 0) = Some (Depth 2)"
    by (simp add: sample_depth_def ex_depth_def)
  have k: "ex_dp = \<lparr>fx = 500, fy = 500, cx = 0, cy = 0\<rparr>" by (simp add: ex_dp_def)
  have nz: "fx (ex_dp\<lparr>cx := 320, cy := 240\<rparr>) \<noteq> 0" "fy (ex_dp\<lparr>cx := 320, cy := 240\<rparr>) \<noteq> 0"
    by (simp_all add: ex_dp_def)
  note t = getPosition_back_projection [of ex_depth 20 0 2 "ex_dp\<lparr>cx := 320, cy := 240\<rparr>"]
  have a: "getPosition ex_dp ex_depth (0, 0) = Inr (0, 0, 2)"
    unfolding k using t [THEN conjunct2, THEN conjunct1] ex_samples(4) by blast
  have b: "getPosition ex_dp ex_depth (100, 0) = Inr (4 / 10, 0, 2)"
    unfolding k using t [THEN conjunct2, THEN conjunct2] ex_samples(5) by blast
  have "getPosition (ex_dp\<lparr>cx := 320, cy := 240\<rparr>) ex_depth (20, 0) =
      Inr ((20 - cx (ex_dp\<lparr>cx := 320, cy := 240\<rparr>)) * 2 / fx (ex_dp\<lparr>cx := 320, cy := 240\<rparr>),
           (0 - cy (ex_dp\<lparr>cx := 320, cy := 240\<rparr>)) * 2 / fy (ex_dp\<lparr>cx := 320, cy := 240\<rparr>), 2)"
    using t [THEN conjunct1] s nz by simp
  then have c: "getPosition (ex_dp\<lparr>cx := 320, cy := 240\<rparr>) ex_depth (20, 0) =
      Inr (- 12 / 10, - 96 / 100, 2)"
    by (simp add: ex_dp_def)
  from a b c show ?thesis by simp
qed

text \<open>
  Claim C9. \<^verbatim>\<open>calculateDistanceToCenter\<close> returns the Euclidean distance in pixels
  between the image point and the image centre \<open>(cx, cy)\<close>: it is never negative, it is
  0 at the centre and nowhere else, and the point 3 pixels right of and 4 pixels below
  the centre is at distance 5.
\<close>

theorem calculateDistanceToCenter_euclidean:
  "calculateDistanceToCenter dp (u, v) = sqrt ((u - cx dp)\<^sup>2 + (v - cy dp)\<^sup>2)
   \<and> calculateDistanceToCenter dp (cx dp, cy dp) = 0
   \<and> 0 \<le> calculateDistanceToCenter dp (u, v)
   \<and> (calculateDistanceToCenter dp (u, v) = 0) = ((u, v) = (cx dp, cy dp))
   \<and> calculateDistanceToCenter \<lparr>fx = 500, fy = 500, cx = 320, cy = 240\<rparr> (323, 244) = 5"
proof -
  have "sqrt ((323 - 320)\<^sup>2 + (244 - 240)\<^sup>2) = sqrt (5\<^sup>2)"
    by (simp add: power2_eq_square)
  then have "calculateDistanceToCenter \<lparr>fx = 500, fy = 500, cx = 320, cy = 240\<rparr> (323, 244) = 5"
    by (simp add: calculateDistanceToCenter_def)
  then show ?thesis
    by (simp add: calculateDistanceToCenter_def sum_power2_eq_zero_iff)
qed

end
